theory Spec2Isabelle
  imports Main
begin

section \<open>Scale-out orchestration on Azure Batch: a model of batch\_containers.py\<close>

text \<open>
  The development follows \<^verbatim>\<open>src/batch_containers.py\<close>. Python exceptions are values
  of the type \<open>error\<close>, a function that may raise returns \<open>error + 'a\<close> with
  \<open>Inl\<close> for the exception, and every attribute or backend mutation is passed
  explicitly.
\<close>

subsection \<open>Exceptions\<close>

text \<open>
  \<open>TypeError k\<close> is the error of a call that received the unexpected keyword or
  positional argument \<open>k\<close>. \<open>RuntimeError msg t\<close> stands for the message
  \<open>msg + str(t)\<close>, with the time span \<open>t\<close> kept as a value. \<open>AttributeError a\<close>
  is the error of reading the attribute \<open>a\<close> before it is assigned.
  \<open>BatchErrorException c\<close> is the error of the Batch service with error code \<open>c\<close>.
\<close>

datatype error =
    TypeError string
  | RuntimeError string int
  | ZeroDivisionError
  | OverflowError
  | AttributeError string
  | BatchErrorException string

subsection \<open>The logging set-up of the module\<close>

text \<open>
  Lines 33 and 45 of the module: the root logger is set to \<open>NOTSET\<close>, the module's
  logger is created with its default level \<open>NOTSET\<close>, and \<open>logging.disable\<close> is
  never called. The functions below follow \<open>Logger.getEffectiveLevel\<close>,
  \<open>Logger.isEnabledFor\<close> and \<open>Logger.info\<close> of the Python standard library:
  an enabled call hands its keyword arguments to \<open>Logger._log\<close>, whose keyword
  parameters are \<open>exc_info\<close>, \<open>extra\<close>, \<open>stack_info\<close> and \<open>stacklevel\<close>.
\<close>

definition NOTSET :: nat where "NOTSET = 0"
definition DEBUG :: nat where "DEBUG = 10"
definition INFO :: nat where "INFO = 20"
definition WARNING :: nat where "WARNING = 30"

record logging_state =
  root_level :: nat
  logger_level :: nat
  manager_disable :: nat

definition module_logging :: logging_state where
  "module_logging = \<lparr>root_level = NOTSET, logger_level = NOTSET, manager_disable = 0\<rparr>"

definition getEffectiveLevel :: "logging_state \<Rightarrow> nat" where
  "getEffectiveLevel lg =
     (if logger_level lg \<noteq> 0 then logger_level lg
      else if root_level lg \<noteq> 0 then root_level lg
      else NOTSET)"

definition isEnabledFor :: "logging_state \<Rightarrow> nat \<Rightarrow> bool" where
  "isEnabledFor lg level =
     (if level \<le> manager_disable lg then False else getEffectiveLevel lg \<le> level)"

definition log_keywords :: "string list" where
  "log_keywords = [''exc_info'', ''extra'', ''stack_info'', ''stacklevel'']"

text \<open>A log record: level and message.\<close>

type_synonym log_record = "nat \<times> string"

definition logger_log ::
  "logging_state \<Rightarrow> nat \<Rightarrow> string \<Rightarrow> string list \<Rightarrow> error + log_record list" where
  "logger_log lg level msg kwargs =
     (if isEnabledFor lg level then
        (case filter (\<lambda>k. k \<notin> set log_keywords) kwargs of
           [] \<Rightarrow> Inr [(level, msg)]
         | k # _ \<Rightarrow> Inl (TypeError k))
      else Inr [])"

definition logger_info :: "string \<Rightarrow> string list \<Rightarrow> error + log_record list" where
  "logger_info msg kwargs = logger_log module_logging INFO msg kwargs"

subsection \<open>The completion barrier\<close>

text \<open>
  Times are integers in microseconds, as \<open>datetime\<close> and \<open>timedelta\<close> count them.
  The world seen by the barrier is the listing that \<open>batch_client.task.list\<close>
  returns at a given instant, and the time one round of the loop takes beyond its
  \<open>time.sleep(1)\<close>.
\<close>

datatype task_state = Active | Preparing | Running | Completed

record world =
  task_list :: "int \<Rightarrow> task_state list"
  overhead :: nat

text \<open>
  The result of the barrier and the number of \<open>task.list\<close> calls it has made.
\<close>

type_synonym barrier_result = "(error + bool) \<times> nat"

definition incomplete_tasks :: "task_state list \<Rightarrow> task_state list" where
  "incomplete_tasks tasks = filter (\<lambda>s. s \<noteq> Completed) tasks"

text \<open>
  The \<open>while\<close> loop of \<open>wait_for_tasks_to_complete\<close> (lines 390 to 408); \<open>now\<close> is
  the clock at the loop's test, \<open>n\<close> the listings made so far.
\<close>

function wait_loop :: "world \<Rightarrow> int \<Rightarrow> int \<Rightarrow> int \<Rightarrow> nat \<Rightarrow> barrier_result" where
  "wait_loop w timeout timeout_expiration now n =
     (if now < timeout_expiration then
        (if incomplete_tasks (task_list w now) = [] then (Inr True, Suc n)
         else wait_loop w timeout timeout_expiration
                (now + 1000000 + int (overhead w)) (Suc n))
      else
        (Inl (RuntimeError
           ''ERROR: Tasks did not reach 'Completed' state within timeout period of ''
           timeout), n))"
  by pat_completeness auto
termination
  by (relation "measure (\<lambda>(w, timeout, e, now, n). nat (e - now))") auto

text \<open>
  A \<open>datetime\<close> is counted in microseconds from \<open>datetime.min\<close>, the first instant
  of the year 1; \<open>datetime.max\<close> is the last microsecond of the year 9999. The sum of
  a \<open>datetime\<close> and a \<open>timedelta\<close> that lies outside these two is an
  \<open>OverflowError\<close>.
\<close>

definition datetime_max :: int where
  "datetime_max = 315537897599999999"

definition datetime_add :: "int \<Rightarrow> int \<Rightarrow> error + int" where
  "datetime_add d delta =
     (if 0 \<le> d + delta \<and> d + delta \<le> datetime_max then Inr (d + delta)
      else Inl OverflowError)"

text \<open>
  \<open>wait_for_tasks_to_complete\<close>, lines 379 to 408: the expiration of line 381, the
  \<open>logger.info\<close> call of lines 383 to 388, and the loop; \<open>now\<close> is the clock at the
  call.
\<close>

definition wait_for_tasks_to_complete :: "world \<Rightarrow> int \<Rightarrow> int \<Rightarrow> barrier_result" where
  "wait_for_tasks_to_complete w now timeout =
     (case datetime_add now timeout of
        Inl e \<Rightarrow> (Inl e, 0)
      | Inr timeout_expiration \<Rightarrow>
          (case logger_info ''Monitoring all tasks for 'Completed' state, timeout in {}...''
                  [''end''] of
             Inl e \<Rightarrow> (Inl e, 0)
           | Inr _ \<Rightarrow> wait_loop w timeout timeout_expiration now 0))"

subsection \<open>Strings\<close>

text \<open>
  \<open>str(n)\<close> for an integer: its decimal digits, with a minus sign below zero.
\<close>

definition digit_char :: "nat \<Rightarrow> char" where
  "digit_char d = ''0123456789'' ! d"

fun str_nat :: "nat \<Rightarrow> string" where
  "str_nat n = (if n < 10 then [digit_char n] else str_nat (n div 10) @ [digit_char (n mod 10)])"

declare str_nat.simps [simp del]

definition str_int :: "int \<Rightarrow> string" where
  "str_int i = (if i < 0 then CHR ''-'' # str_nat (nat (- i)) else str_nat (nat i))"

text \<open>
  \<open>s.lower()\<close> on the ASCII letters; a string is a list of bytes here, and the bytes
  of a character outside ASCII are left as they are.
\<close>

definition lower_char :: "char \<Rightarrow> char" where
  "lower_char c =
     (case map_of (zip ''ABCDEFGHIJKLMNOPQRSTUVWXYZ'' ''abcdefghijklmnopqrstuvwxyz'') c of
        None \<Rightarrow> c
      | Some l \<Rightarrow> l)"

definition lower :: "string \<Rightarrow> string" where
  "lower s = map lower_char s"

subsection \<open>True division of integers and \<open>int()\<close> of the quotient\<close>

text \<open>
  Python's \<open>a / b\<close> on two \<open>int\<close>s is the binary64 number nearest to the exact
  quotient, ties to even, \<open>ZeroDivisionError\<close> for \<open>b = 0\<close> and \<open>OverflowError\<close>
  when the rounded quotient reaches \<open>2 ^ 1024\<close>. A float is kept as a sign, a
  mantissa \<open>m\<close> and an exponent \<open>e\<close>, its value being \<open>m * 2 ^ e\<close>.
\<close>

fun bit_length :: "nat \<Rightarrow> nat" where
  "bit_length n = (if n = 0 then 0 else Suc (bit_length (n div 2)))"

declare bit_length.simps [simp del]

text \<open>The integer nearest to \<open>x / y\<close>, ties to even.\<close>

definition round_half_even :: "nat \<Rightarrow> nat \<Rightarrow> nat" where
  "round_half_even x y =
     (let d = x div y; r = x mod y in
      if 2 * r < y then d
      else if y < 2 * r then d + 1
      else if even d then d else d + 1)"

text \<open>The \<open>k\<close> with \<open>2 ^ k \<le> a / b < 2 ^ (k + 1)\<close>, for positive \<open>a\<close> and \<open>b\<close>.\<close>

definition quotient_exponent :: "nat \<Rightarrow> nat \<Rightarrow> int" where
  "quotient_exponent a b =
     (let k0 = int (bit_length a) - int (bit_length b) in
      if b * 2 ^ nat k0 \<le> a * 2 ^ nat (- k0) then k0 else k0 - 1)"

record py_float =
  negative :: bool
  mantissa :: nat
  exponent :: int

text \<open>
  The quotient of two positive integers: 53 bits of mantissa, and no exponent below
  \<open>- 1074\<close> (the subnormal numbers).
\<close>

definition float_quotient :: "nat \<Rightarrow> nat \<Rightarrow> nat \<times> int" where
  "float_quotient a b =
     (let k = quotient_exponent a b;
          e = max (k - 52) (- 1074);
          m = round_half_even (a * 2 ^ nat (- e)) (b * 2 ^ nat e)
      in (m, e))"

definition true_div :: "int \<Rightarrow> int \<Rightarrow> error + py_float" where
  "true_div a b =
     (if b = 0 then Inl ZeroDivisionError
      else if a = 0 then Inr \<lparr>negative = False, mantissa = 0, exponent = 0\<rparr>
      else
        (let (m, e) = float_quotient (nat \<bar>a\<bar>) (nat \<bar>b\<bar>) in
         if 2 ^ 1024 * 2 ^ nat (- e) \<le> m * 2 ^ nat e then Inl OverflowError
         else Inr \<lparr>negative = ((a < 0) \<noteq> (b < 0)), mantissa = m, exponent = e\<rparr>))"

text \<open>\<open>int(x)\<close> of a float: truncation towards zero.\<close>

definition int_of_float :: "py_float \<Rightarrow> int" where
  "int_of_float x =
     (let q = int ((mantissa x * 2 ^ nat (exponent x)) div 2 ^ nat (- exponent x)) in
      if negative x then - q else q)"

subsection \<open>The sizing policy of \<open>run_tasks\<close>\<close>

text \<open>
  Lines 549 and 550: \<open>total_nodes\<close> and \<open>tasks_per_node\<close>, with \<open>num_tasks\<close> already
  an integer.
\<close>

definition tasks_per_node :: "int \<Rightarrow> int \<Rightarrow> int \<Rightarrow> error + int" where
  "tasks_per_node num_tasks low_pri_nodes dedicated_nodes =
     (let total_nodes = low_pri_nodes + dedicated_nodes in
      case true_div num_tasks total_nodes of
        Inl e \<Rightarrow> Inl e
      | Inr x \<Rightarrow> Inr (max (int_of_float x) 1))"

text \<open>
  Lines 562 to 576, the chain that picks a size from \<open>tasks_per_node\<close>; \<open>vm_sku\<close> is
  the value the chain starts from and leaves alone when no branch is taken.
\<close>

definition default_vm_sku :: "string \<Rightarrow> int \<Rightarrow> error + string \<times> log_record list" where
  "default_vm_sku vm_sku t =
     (if t \<le> 8 then Inr (''Standard_E2s_v3'', [])
      else if t \<le> 16 then Inr (''Standard_E8s_v3'', [])
      else if t \<le> 32 then Inr (''Standard_E16s_v3'', [])
      else if t \<le> 75 then Inr (''Standard_E32s_v3'', [])
      else if t > 75 then
        (case logger_info
                (''Running '' @ str_int t @ '' tasks per node, please check if VM Size is compatible'')
                [] of
           Inl e \<Rightarrow> Inl e
         | Inr recs \<Rightarrow> Inr (''Standard_E64s_v3'', recs))
      else Inr (vm_sku, []))"

text \<open>
  Lines 557 to 577: \<open>vm_sku\<close> is the argument of \<open>run_tasks\<close> (\<open>None\<close> when it is
  not given), \<open>answer\<close> is what \<open>input\<close> returns when the operator is asked for a
  size. The result is the value stored under \<open>VM_SIZE\<close> and the records logged.
\<close>

definition select_vm_sku ::
  "string option \<Rightarrow> string \<Rightarrow> int \<Rightarrow> error + string \<times> log_record list" where
  "select_vm_sku vm_sku answer t =
     (case (if vm_sku = Some [] then None else vm_sku) of
        None \<Rightarrow>
          (if lower answer = ''none'' \<or> lower answer = [] then default_vm_sku answer t
           else Inr (answer, []))
      | Some sku \<Rightarrow> Inr (sku, []))"

text \<open>
  Lines 549 to 577 together: the density, the size and the records logged.
\<close>

definition recommend ::
  "int \<Rightarrow> int \<Rightarrow> int \<Rightarrow> string option \<Rightarrow> string \<Rightarrow> error + int \<times> string \<times> log_record list" where
  "recommend num_tasks dedicated_nodes low_pri_nodes vm_sku answer =
     (case tasks_per_node num_tasks low_pri_nodes dedicated_nodes of
        Inl e \<Rightarrow> Inl e
      | Inr t \<Rightarrow>
          (case select_vm_sku vm_sku answer t of
             Inl e \<Rightarrow> Inl e
           | Inr (sku, recs) \<Rightarrow> Inr (t, sku, recs)))"

text \<open>
  The order of the sizes by their number of cores, smallest first.
\<close>

definition vm_size_rank :: "string \<Rightarrow> nat option" where
  "vm_size_rank sku =
     (if sku = ''Standard_E2s_v3'' then Some 0
      else if sku = ''Standard_E8s_v3'' then Some 1
      else if sku = ''Standard_E16s_v3'' then Some 2
      else if sku = ''Standard_E32s_v3'' then Some 3
      else if sku = ''Standard_E64s_v3'' then Some 4
      else None)"

subsection \<open>The configuration and the Batch service\<close>

text \<open>
  The configuration as the class reads it: every key the code looks up is present,
  and a key the code passes to \<open>int\<close> holds the integer it denotes. The fields are
  named by section and key.
\<close>

record config =
  ACR_PLATFORM :: string
  POOL_POOL_ID :: string
  POOL_VM_SIZE :: string
  POOL_TASKS_PER_NODE :: int
  POOL_LOW_PRI_NODES :: int
  POOL_DEDICATED_NODES :: int
  POOL_AGENT_SKU :: string
  POOL_PUBLISHER :: string
  POOL_JOB_NAME :: string
  POOL_NUM_TASKS :: int
  STORAGE_ACCOUNT_NAME :: string
  STORAGE_URL :: string
  STORAGE_ACCOUNT_KEY :: string

text \<open>\<open>s.strip("'")\<close>: the apostrophes at both ends are removed.\<close>

definition strip_quote :: "string \<Rightarrow> string" where
  "strip_quote s = rev (dropWhile (\<lambda>c. c = CHR 0x27) (rev (dropWhile (\<lambda>c. c = CHR 0x27) s)))"

definition backslash :: char where
  "backslash = CHR 0x5C"

record azure_file_share_configuration =
  account_name :: string
  azure_file_url :: string
  account_key :: string
  relative_mount_path :: string
  mount_options :: string

record pool_add_parameter =
  pool_param_id :: string
  container_image_names :: "string list"
  node_agent_sku_id :: string
  vm_size :: string
  max_tasks_per_node :: int
  target_dedicated_nodes :: int
  target_low_priority_nodes :: int
  mount_configuration :: "azure_file_share_configuration list option"

record task_add_parameter =
  task_param_id :: string
  command_line :: string
  container_image :: string
  container_run_options :: string
  environment_settings :: "(string \<times> string) list"

datatype job_state = JobActive | JobDeleting

record job =
  job_ident :: string
  job_pool_id :: string
  state_of_job :: job_state
  job_tasks :: "task_add_parameter list"

datatype call =
    PoolExists string
  | PoolAdd string
  | PoolDelete string
  | JobAdd string
  | JobDelete string
  | JobList
  | TaskAdd string string

text \<open>
  Modelled from the spec: the Batch service behind \<open>batch_client\<close> (the package
  \<open>azure.batch\<close>) is not part of the repository. It is the backend of section 6 of
  the specification: pools with \<open>exists\<close>, \<open>add\<close> and \<open>delete\<close>, jobs with
  \<open>add\<close>, \<open>delete\<close> and \<open>list\<close>, tasks with \<open>add\<close>. A job is created only on
  an existing pool and under a new id; deleting a job marks it as being deleted, and
  deleting a job that is unknown or already being deleted is an error, as is adding a
  task under an id the job already has. The service records every call it receives.
\<close>

record batch_service =
  pools :: "pool_add_parameter list"
  jobs :: "job list"
  calls :: "call list"

definition pool_ids :: "batch_service \<Rightarrow> string list" where
  "pool_ids b = map pool_param_id (pools b)"

definition job_ids :: "batch_service \<Rightarrow> string list" where
  "job_ids b = map job_ident (jobs b)"

definition pool_exists :: "batch_service \<Rightarrow> string \<Rightarrow> bool \<times> batch_service" where
  "pool_exists b pid = (pid \<in> set (pool_ids b), b\<lparr>calls := calls b @ [PoolExists pid]\<rparr>)"

definition pool_add :: "batch_service \<Rightarrow> pool_add_parameter \<Rightarrow> (error + unit) \<times> batch_service" where
  "pool_add b p =
     (let b' = b\<lparr>calls := calls b @ [PoolAdd (pool_param_id p)]\<rparr> in
      if pool_param_id p \<in> set (pool_ids b) then (Inl (BatchErrorException ''PoolExists''), b')
      else (Inr (), b'\<lparr>pools := pools b @ [p]\<rparr>))"

definition pool_delete :: "batch_service \<Rightarrow> string \<Rightarrow> (error + unit) \<times> batch_service" where
  "pool_delete b pid =
     (let b' = b\<lparr>calls := calls b @ [PoolDelete pid]\<rparr> in
      if pid \<in> set (pool_ids b)
      then (Inr (), b'\<lparr>pools := filter (\<lambda>p. pool_param_id p \<noteq> pid) (pools b)\<rparr>)
      else (Inl (BatchErrorException ''PoolNotFound''), b'))"

definition job_add :: "batch_service \<Rightarrow> string \<Rightarrow> string \<Rightarrow> (error + unit) \<times> batch_service" where
  "job_add b jid pid =
     (let b' = b\<lparr>calls := calls b @ [JobAdd jid]\<rparr> in
      if jid \<in> set (job_ids b) then (Inl (BatchErrorException ''JobExists''), b')
      else if pid \<notin> set (pool_ids b) then (Inl (BatchErrorException ''PoolNotFound''), b')
      else (Inr (), b'\<lparr>jobs := jobs b @
              [\<lparr>job_ident = jid, job_pool_id = pid, state_of_job = JobActive, job_tasks = []\<rparr>]\<rparr>))"

definition job_delete :: "batch_service \<Rightarrow> string \<Rightarrow> (error + unit) \<times> batch_service" where
  "job_delete b jid =
     (let b' = b\<lparr>calls := calls b @ [JobDelete jid]\<rparr> in
      case filter (\<lambda>j. job_ident j = jid) (jobs b) of
        [] \<Rightarrow> (Inl (BatchErrorException ''JobNotFound''), b')
      | j # _ \<Rightarrow>
          if state_of_job j = JobDeleting then (Inl (BatchErrorException ''JobBeingDeleted''), b')
          else (Inr (), b'\<lparr>jobs := map (\<lambda>j. if job_ident j = jid
                                           then j\<lparr>state_of_job := JobDeleting\<rparr> else j) (jobs b)\<rparr>))"

definition job_list :: "batch_service \<Rightarrow> job list \<times> batch_service" where
  "job_list b = (jobs b, b\<lparr>calls := calls b @ [JobList]\<rparr>)"

definition task_add ::
  "batch_service \<Rightarrow> string \<Rightarrow> task_add_parameter \<Rightarrow> (error + unit) \<times> batch_service" where
  "task_add b jid t =
     (let b' = b\<lparr>calls := calls b @ [TaskAdd jid (task_param_id t)]\<rparr> in
      case filter (\<lambda>j. job_ident j = jid) (jobs b) of
        [] \<Rightarrow> (Inl (BatchErrorException ''JobNotFound''), b')
      | j # _ \<Rightarrow>
          if task_param_id t \<in> set (map task_param_id (job_tasks j))
          then (Inl (BatchErrorException ''TaskExists''), b')
          else (Inr (), b'\<lparr>jobs := map (\<lambda>j. if job_ident j = jid
                                           then j\<lparr>job_tasks := job_tasks j @ [t]\<rparr> else j) (jobs b)\<rparr>))"

text \<open>The tasks the service holds under a job id, in the order of their submission.\<close>

definition tasks_of :: "batch_service \<Rightarrow> string \<Rightarrow> task_add_parameter list" where
  "tasks_of b jid = concat (map job_tasks (filter (\<lambda>j. job_ident j = jid) (jobs b)))"

subsection \<open>The class \<open>AzureBatchContainers\<close>\<close>

text \<open>
  The attributes of an instance after \<open>__init__\<close>. An attribute that \<open>__init__\<close>
  does not set is \<open>None\<close> until a method assigns it, and reading it before that is
  an \<open>AttributeError\<close>. A method returns its result, or the exception it raises,
  together with the instance as the call leaves it. Calls of \<open>logger\<close> with a message
  alone raise nothing and are left out.
\<close>

record containers =
  config :: config
  batch_client :: batch_service
  image_name :: string
  image_version :: string
  workspace :: string
  access_key :: string
  use_fileshare :: bool
  mount_path :: "string option"
  new_pool :: "pool_add_parameter option"
  pool_id :: "string option"
  job_id :: "string option"
  task_id :: "string option"

text \<open>Lines 240 to 247: the call of \<open>pool.add\<close> and the assignment of \<open>pool_id\<close>.\<close>

definition add_new_pool ::
  "pool_add_parameter \<Rightarrow> string \<Rightarrow> containers \<Rightarrow> (error + unit) \<times> containers" where
  "add_new_pool np pid s =
     (case pool_add (batch_client s) np of
        (Inl e, b) \<Rightarrow> (Inl e, s\<lparr>batch_client := b\<rparr>)
      | (Inr _, b) \<Rightarrow> (Inr (), s\<lparr>batch_client := b, pool_id := Some pid\<rparr>))"

text \<open>
  \<open>create_pool\<close>, lines 184 to 247: the mount path of lines 206 to 209, the pool
  definition of lines 193 to 238, and the method.
\<close>

definition platform_mount_path :: "config \<Rightarrow> string" where
  "platform_mount_path cfg = (if ACR_PLATFORM cfg = ''windows'' then ''S'' else ''azfileshare'')"

definition pool_parameter :: "bool \<Rightarrow> containers \<Rightarrow> pool_add_parameter" where
  "pool_parameter use_fs s =
     (let cfg = config s;
          fileshare_mount =
            (if use_fs then
               Some [\<lparr>account_name = STORAGE_ACCOUNT_NAME cfg,
                      azure_file_url = STORAGE_URL cfg,
                      account_key = STORAGE_ACCOUNT_KEY cfg,
                      relative_mount_path = platform_mount_path cfg,
                      mount_options = ''/persistent:Yes''\<rparr>]
             else None)
      in \<lparr>pool_param_id = strip_quote (POOL_POOL_ID cfg),
          container_image_names = [image_name s @ '':'' @ image_version s],
          node_agent_sku_id = strip_quote (POOL_AGENT_SKU cfg),
          vm_size = strip_quote (POOL_VM_SIZE cfg),
          max_tasks_per_node = POOL_TASKS_PER_NODE cfg,
          target_dedicated_nodes = POOL_DEDICATED_NODES cfg,
          target_low_priority_nodes = POOL_LOW_PRI_NODES cfg,
          mount_configuration = fileshare_mount\<rparr>)"

definition create_pool :: "bool \<Rightarrow> bool \<Rightarrow> containers \<Rightarrow> (error + unit) \<times> containers" where
  "create_pool skip_if_exists use_fs s =
     (let pid = strip_quote (POOL_POOL_ID (config s));
          np = pool_parameter use_fs s;
          s1 = s\<lparr>use_fileshare := use_fs,
                 mount_path := Some (platform_mount_path (config s)),
                 new_pool := Some np\<rparr>
      in if \<not> skip_if_exists then add_new_pool np pid s1
         else
           (case pool_exists (batch_client s1) pid of
              (ex, b) \<Rightarrow>
                if \<not> ex then add_new_pool np pid (s1\<lparr>batch_client := b\<rparr>)
                else (Inr (), s1\<lparr>batch_client := b, pool_id := Some pid\<rparr>)))"

text \<open>
  \<open>add_job\<close>, lines 254 to 271; \<open>stamp\<close> is the formatted \<open>datetime.now()\<close> of the
  default name.
\<close>

definition add_job :: "string option \<Rightarrow> string \<Rightarrow> containers \<Rightarrow> (error + unit) \<times> containers" where
  "add_job job_name stamp s =
     (let jid = (case job_name of
                   Some n \<Rightarrow> if n \<noteq> [] then n
                             else ''Job-'' @ strip_quote (POOL_JOB_NAME (config s)) @ ''-'' @ stamp
                 | None \<Rightarrow> ''Job-'' @ strip_quote (POOL_JOB_NAME (config s)) @ ''-'' @ stamp);
          s1 = s\<lparr>job_id := Some jid\<rparr>
      in case pool_id s1 of
           None \<Rightarrow> (Inl (AttributeError ''pool_id''), s1)
         | Some pid \<Rightarrow>
             (case job_add (batch_client s1) jid pid of
                (r, b) \<Rightarrow> (r, s1\<lparr>batch_client := b\<rparr>)))"

text \<open>
  \<open>add_task\<close>, lines 320 to 377: the options of the container of lines 337 to 349,
  the task of lines 358 to 375, and the method.
\<close>

definition task_mount :: "bool \<Rightarrow> string \<Rightarrow> string" where
  "task_mount windows start_dir =
     (if windows then ''S:'' @ [backslash] @ '':C:'' @ [backslash] @ start_dir @ [backslash] @ ''logs''
      else ''/azfileshare/:/'' @ start_dir @ ''/logs'')"

definition run_options :: "string option \<Rightarrow> containers \<Rightarrow> string" where
  "run_options start_dir s =
     (let start_dir = (case start_dir of
                         None \<Rightarrow> ''src''
                       | Some d \<Rightarrow> if d = [] then ''src'' else d);
          windows = (POOL_PUBLISHER (config s) = ''MicrosoftWindowsServer'');
          extra_opts = (if windows then ''-w C:'' @ [backslash] @ start_dir @ [backslash]
                        else ''--workdir /'' @ start_dir @ ''/'')
      in if use_fileshare s then extra_opts @ '' --volume '' @ task_mount windows start_dir
         else extra_opts)"

definition task_parameter ::
  "string \<Rightarrow> string \<Rightarrow> string option \<Rightarrow> containers \<Rightarrow> task_add_parameter" where
  "task_parameter task_command task_name start_dir s =
     \<lparr>task_param_id = task_name,
      command_line = task_command,
      container_image = image_name s @ '':'' @ image_version s,
      container_run_options = run_options start_dir s,
      environment_settings =
        [(''SIM_WORKSPACE'', workspace s), (''SIM_ACCESS_KEY'', access_key s)]\<rparr>"

definition add_task ::
  "string \<Rightarrow> string \<Rightarrow> string option \<Rightarrow> containers \<Rightarrow> (error + unit) \<times> containers" where
  "add_task task_command task_name start_dir s =
     (let s1 = s\<lparr>task_id := Some task_name\<rparr>
      in case pool_id s1 of
           None \<Rightarrow> (Inl (AttributeError ''pool_id''), s1)
         | Some _ \<Rightarrow>
             (case job_id s1 of
                None \<Rightarrow> (Inl (AttributeError ''job_id''), s1)
              | Some jid \<Rightarrow>
                  (case task_add (batch_client s1) jid
                          (task_parameter task_command task_name start_dir s1) of
                     (r, b) \<Rightarrow> (r, s1\<lparr>batch_client := b\<rparr>))))"

text \<open>
  The two definitions of \<open>delete_pool\<close>: the one of line 249, with a parameter, and
  the one of line 291, without.
\<close>

definition delete_pool_249 :: "string \<Rightarrow> containers \<Rightarrow> (error + unit) \<times> containers" where
  "delete_pool_249 pool_name s =
     (case pool_delete (batch_client s) pool_name of
        (r, b) \<Rightarrow> (r, s\<lparr>batch_client := b\<rparr>))"

definition delete_pool_291 :: "containers \<Rightarrow> (error + unit) \<times> containers" where
  "delete_pool_291 s =
     (let pool_name = POOL_POOL_ID (config s) in
      case pool_delete (batch_client s) pool_name of
        (r, b) \<Rightarrow> (r, s\<lparr>batch_client := b\<rparr>))"

text \<open>
  The body of the class binds its names in the order of the source, a later \<open>def\<close>
  replacing an earlier one of the same name. A definition is named by its line.
\<close>

definition class_body :: "(string \<times> nat) list" where
  "class_body =
     [(''__init__'', 49), (''get_container_registry'', 101), (''get_image_ref'', 126),
      (''authenticate_batch'', 144), (''create_pool'', 184), (''delete_pool'', 249),
      (''add_job'', 254), (''delete_job'', 273), (''delete_all_tasks'', 277),
      (''delete_pool'', 291), (''list_pools'', 297), (''list_tasks'', 301),
      (''copy_logfiles'', 305), (''add_task'', 320), (''wait_for_tasks_to_complete'', 379),
      (''batch_main'', 410)]"

definition class_dict :: "string \<Rightarrow> nat option" where
  "class_dict = fold (\<lambda>(name, line) d. d(name \<mapsto> line)) class_body Map.empty"

text \<open>
  The call \<open>instance.delete_pool(*args, **kwargs)\<close>: the arguments are bound to the
  parameters of the definition the class holds under that name.
\<close>

definition call_delete_pool ::
  "string list \<Rightarrow> (string \<times> string) list \<Rightarrow> containers \<Rightarrow> (error + unit) \<times> containers" where
  "call_delete_pool args kwargs s =
     (case class_dict ''delete_pool'' of
        None \<Rightarrow> (Inl (AttributeError ''delete_pool''), s)
      | Some line \<Rightarrow>
          if line = 249 then
            (case (args, kwargs) of
               ([pool_name], []) \<Rightarrow> delete_pool_249 pool_name s
             | ([], [(k, pool_name)]) \<Rightarrow>
                 if k = ''pool_name'' then delete_pool_249 pool_name s
                 else (Inl (TypeError k), s)
             | _ \<Rightarrow> (Inl (TypeError ''pool_name''), s))
          else
            (case (args, kwargs) of
               ([], []) \<Rightarrow> delete_pool_291 s
             | (a # _, _) \<Rightarrow> (Inl (TypeError a), s)
             | ([], (k, _) # _) \<Rightarrow> (Inl (TypeError k), s)))"

text \<open>
  \<open>delete_all_tasks\<close>, lines 277 to 289. \<open>try_delete\<close> has no \<open>return\<close>: its value
  is \<open>None\<close>, whether the deletion raised or not. The lines printed are kept.
\<close>

datatype py_none = PyNone

definition try_delete ::
  "string \<Rightarrow> containers \<times> string list \<Rightarrow> py_none \<times> containers \<times> string list" where
  "try_delete jid st =
     (case st of (s, out) \<Rightarrow>
        (case job_delete (batch_client s) jid of
           (Inr _, b) \<Rightarrow> (PyNone, s\<lparr>batch_client := b\<rparr>, out)
         | (Inl e, b) \<Rightarrow> (PyNone, s\<lparr>batch_client := b\<rparr>, out @ [''already gone''])))"

fun try_delete_all ::
  "string list \<Rightarrow> containers \<times> string list \<Rightarrow> py_none list \<times> containers \<times> string list" where
  "try_delete_all [] st = ([], st)"
| "try_delete_all (jid # jid_list) st =
     (case try_delete jid st of
        (r, st') \<Rightarrow> (case try_delete_all jid_list st' of (rs, st'') \<Rightarrow> (r # rs, st'')))"

definition delete_all_tasks :: "containers \<Rightarrow> py_none list \<times> containers \<times> string list" where
  "delete_all_tasks s =
     (case job_list (batch_client s) of
        (js, b) \<Rightarrow>
          (let jid_list = map job_ident js
           in try_delete_all jid_list (s\<lparr>batch_client := b\<rparr>, [])))"





text \<open>
  Lines 593 to 602 of \<open>run_tasks\<close>: on a Windows platform the image settings of the
  pool are taken from the Windows configuration file, of which \<open>win_publisher\<close> and
  \<open>win_agent_sku\<close> are the entries \<open>PUBLISHER\<close> and \<open>AGENT_SKU\<close>.
\<close>

definition run_tasks_platform :: "string \<Rightarrow> string \<Rightarrow> config \<Rightarrow> config" where
  "run_tasks_platform win_publisher win_agent_sku cfg =
     (if lower (ACR_PLATFORM cfg) = ''windows''
      then cfg\<lparr>POOL_PUBLISHER := win_publisher, POOL_AGENT_SKU := win_agent_sku\<rparr>
      else cfg)"

text \<open>The names of the pools that \<open>pool.add\<close> was called with, in the order of the calls.\<close>

fun pool_add_calls :: "call list \<Rightarrow> string list" where
  "pool_add_calls [] = []"
| "pool_add_calls (PoolAdd p # cs) = p # pool_add_calls cs"
| "pool_add_calls (c # cs) = pool_add_calls cs"

subsection \<open>A concrete configuration\<close>

text \<open>
  A configuration file with the platform written \<open>Windows\<close> and the pool id in
  apostrophes, an instance on a Batch account that holds nothing yet, and an account
  with three jobs of which the second is already being deleted.
\<close>

definition demo_config :: config where
  "demo_config =
     \<lparr>ACR_PLATFORM = ''Windows'',
      POOL_POOL_ID = CHR 0x27 # ''simpool10'' @ [CHR 0x27],
      POOL_VM_SIZE = ''Standard_E8s_v3'',
      POOL_TASKS_PER_NODE = 10,
      POOL_LOW_PRI_NODES = 9,
      POOL_DEDICATED_NODES = 1,
      POOL_AGENT_SKU = ''batch.node.ubuntu 18.04'',
      POOL_PUBLISHER = ''microsoft-azure-batch'',
      POOL_JOB_NAME = ''sim'',
      POOL_NUM_TASKS = 3,
      STORAGE_ACCOUNT_NAME = ''store'',
      STORAGE_URL = ''https://store.file.core.windows.net/share'',
      STORAGE_ACCOUNT_KEY = ''key''\<rparr>"

definition demo_containers :: "config \<Rightarrow> batch_service \<Rightarrow> containers" where
  "demo_containers cfg b =
     \<lparr>config = cfg, batch_client = b,
      image_name = ''registry.azurecr.io/sim'', image_version = ''latest'',
      workspace = ''ws'', access_key = ''ak'',
      use_fileshare = False, mount_path = None, new_pool = None,
      pool_id = None, job_id = None, task_id = None\<rparr>"

definition empty_service :: batch_service where
  "empty_service = \<lparr>pools = [], jobs = [], calls = []\<rparr>"

definition three_jobs :: batch_service where
  "three_jobs =
     \<lparr>pools = [],
      jobs = [\<lparr>job_ident = ''a'', job_pool_id = ''p'', state_of_job = JobActive, job_tasks = []\<rparr>,
              \<lparr>job_ident = ''b'', job_pool_id = ''p'', state_of_job = JobDeleting, job_tasks = []\<rparr>,
              \<lparr>job_ident = ''c'', job_pool_id = ''p'', state_of_job = JobActive, job_tasks = []\<rparr>],
      calls = []\<rparr>"

section \<open>Properties\<close>

subsection \<open>The completion barrier\<close>

lemma logger_info_end: "logger_info msg [''end''] = Inl (TypeError ''end'')"
  by (simp add: logger_info_def logger_log_def isEnabledFor_def getEffectiveLevel_def
      module_logging_def NOTSET_def INFO_def log_keywords_def)

text \<open>
  What the loop alone does, were it reached: it answers \<open>True\<close> exactly when one of its
  polls, at \<open>now\<close>, \<open>now + step\<close>, \<open>now + 2 * step\<close>, ... before the expiration,
  lists no incomplete task.
\<close>

lemma wait_loop_True_iff:
  "fst (wait_loop w t e now n) = Inr True \<longleftrightarrow>
     (\<exists>k. now + int k * (1000000 + int (overhead w)) < e \<and>
          incomplete_tasks (task_list w (now + int k * (1000000 + int (overhead w)))) = [])"
proof (induction w t e now n rule: wait_loop.induct)
  case (1 w t e now n)
  let ?d = "1000000 + int (overhead w)"
  show ?case
  proof (cases "now < e")
    case False
    have "\<not> now + int k * ?d < e" for k
    proof -
      have "0 \<le> int k * ?d" by simp
      with False show ?thesis by linarith
    qed
    with False show ?thesis by simp
  next
    case True
    show ?thesis
    proof (cases "incomplete_tasks (task_list w now) = []")
      case finished: True
      have "now + int 0 * ?d < e \<and> incomplete_tasks (task_list w (now + int 0 * ?d)) = []"
        using True finished by simp
      then have "\<exists>k. now + int k * ?d < e \<and> incomplete_tasks (task_list w (now + int k * ?d)) = []"
        by blast
      with True finished show ?thesis by simp
    next
      case pending: False
      have step: "fst (wait_loop w t e now n) = fst (wait_loop w t e (now + ?d) (Suc n))"
        using True pending by (simp add: add.assoc)
      have ih: "fst (wait_loop w t e (now + ?d) (Suc n)) = Inr True \<longleftrightarrow>
          (\<exists>k. (now + ?d) + int k * ?d < e \<and>
               incomplete_tasks (task_list w ((now + ?d) + int k * ?d)) = [])"
        using "1.IH" [OF True pending] by (simp add: add.assoc)
      have shift: "(now + ?d) + int k * ?d = now + int (Suc k) * ?d" for k
        by (simp add: algebra_simps)
      have "(\<exists>k. (now + ?d) + int k * ?d < e \<and>
               incomplete_tasks (task_list w ((now + ?d) + int k * ?d)) = []) \<longleftrightarrow>
            (\<exists>k. now + int k * ?d < e \<and>
               incomplete_tasks (task_list w (now + int k * ?d)) = [])"
        (is "?L \<longleftrightarrow> ?R")
      proof
        assume ?L
        then obtain k where "now + int (Suc k) * ?d < e"
          "incomplete_tasks (task_list w (now + int (Suc k) * ?d)) = []"
          unfolding shift by blast
        then show ?R by blast
      next
        assume ?R
        then obtain k where k: "now + int k * ?d < e"
          "incomplete_tasks (task_list w (now + int k * ?d)) = []" by blast
        with pending have "k \<noteq> 0" by (cases k) auto
        then obtain j where "k = Suc j" by (cases k) auto
        with k show ?L unfolding shift by blast
      qed
      with step ih show ?thesis by simp
    qed
  qed
qed


text \<open>
  C2. Whatever the backend lists, and for every timeout that leads from the clock at
  the call to an expiration within the years 1 to 9999, the barrier raises a
  \<open>TypeError\<close> for the keyword \<open>end\<close> of its first \<open>logger.info\<close> call, having
  listed the tasks zero times; so it neither returns \<open>True\<close> nor raises the
  \<open>RuntimeError\<close> of its last lines.
\<close>

theorem wait_for_tasks_to_complete_TypeError:
  assumes "0 \<le> now + timeout" and "now + timeout \<le> datetime_max"
  shows "wait_for_tasks_to_complete w now timeout = (Inl (TypeError ''end''), 0)"
  using assms by (simp add: wait_for_tasks_to_complete_def datetime_add_def logger_info_end)

text \<open>
  At noon of the first of January 2021, with the two hours of \<open>batch_main\<close> as the
  timeout and a job whose only task is still running.
\<close>

theorem wait_for_tasks_to_complete_TypeError_witness:
  "0 \<le> (63745099200000000 :: int) + 7200000000
   \<and> (63745099200000000 :: int) + 7200000000 \<le> datetime_max
   \<and> wait_for_tasks_to_complete \<lparr>task_list = (\<lambda>t. [Running]), overhead = 0\<rparr>
         63745099200000000 7200000000 = (Inl (TypeError ''end''), 0)"
  using wait_for_tasks_to_complete_TypeError
    [of 63745099200000000 7200000000 "\<lparr>task_list = (\<lambda>t. [Running]), overhead = 0\<rparr>"]
  by (simp add: datetime_max_def)

text \<open>
  The claim as it was made, for every timeout, fails at \<open>timedelta.max\<close>, which is
  86399999999999999999 microseconds: at the same instant and on the same job the
  barrier raises the \<open>OverflowError\<close> of line 381, not the \<open>TypeError\<close>.
\<close>

theorem wait_for_tasks_to_complete_overflow_counterexample:
  "wait_for_tasks_to_complete \<lparr>task_list = (\<lambda>t. [Running]), overhead = 0\<rparr>
     63745099200000000 86399999999999999999 = (Inl OverflowError, 0)
   \<and> wait_for_tasks_to_complete \<lparr>task_list = (\<lambda>t. [Running]), overhead = 0\<rparr>
     63745099200000000 86399999999999999999 \<noteq> (Inl (TypeError ''end''), 0)"
  by (simp add: wait_for_tasks_to_complete_def datetime_add_def datetime_max_def)

text \<open>
  C1. The barrier is to return success when every task of the job is \<open>Completed\<close>
  before the deadline. On a job whose only task is \<open>Completed\<close> from the start, with
  the two hours of \<open>batch_main\<close> as the timeout, it does not return \<open>True\<close>: it
  raises the \<open>TypeError\<close> instead.
\<close>

theorem wait_for_tasks_to_complete_all_completed:
  "fst (wait_for_tasks_to_complete
          \<lparr>task_list = (\<lambda>t. [Completed]), overhead = 0\<rparr> 0 7200000000)
     = Inl (TypeError ''end'')
   \<and> fst (wait_loop \<lparr>task_list = (\<lambda>t. [Completed]), overhead = 0\<rparr>
            7200000000 7200000000 0 0) = Inr True"
  by (simp add: wait_for_tasks_to_complete_def datetime_add_def datetime_max_def
      logger_info_end incomplete_tasks_def)

subsection \<open>The sizing policy\<close>

text \<open>The length in bits of a number bounds it on both sides.\<close>

lemma bit_length_0: "bit_length 0 = 0"
  by (simp add: bit_length.simps)

lemma bit_length_Suc: "n \<noteq> 0 \<Longrightarrow> bit_length n = Suc (bit_length (n div 2))"
  by (subst bit_length.simps) simp

lemma bit_length_le: "n < 2 ^ p \<Longrightarrow> bit_length n \<le> p"
proof (induction n arbitrary: p rule: bit_length.induct)
  case (1 n)
  show ?case
  proof (cases "n = 0")
    case True
    then show ?thesis by (simp add: bit_length_0)
  next
    case False
    with "1.prems" obtain q where p: "p = Suc q" by (cases p) auto
    with "1.prems" have "n div 2 < 2 ^ q" by auto
    with "1.IH" [OF False] have "bit_length (n div 2) \<le> q" .
    with False p show ?thesis by (simp add: bit_length_Suc)
  qed
qed

lemma bit_length_pos: "0 < n \<Longrightarrow> 0 < bit_length n"
  by (simp add: bit_length_Suc)

lemma bit_length_upper: "n < 2 ^ bit_length n"
proof (induction n rule: bit_length.induct)
  case (1 n)
  show ?case
  proof (cases "n = 0")
    case True
    then show ?thesis by simp
  next
    case False
    from "1.IH" [OF False] have "n div 2 < 2 ^ bit_length (n div 2)" .
    then have "n < 2 * 2 ^ bit_length (n div 2)" by linarith
    with False show ?thesis by (simp add: bit_length_Suc)
  qed
qed

lemma bit_length_lower: "0 < n \<Longrightarrow> 2 ^ (bit_length n - 1) \<le> n"
proof (induction n rule: bit_length.induct)
  case (1 n)
  then have n: "n \<noteq> 0" by simp
  show ?case
  proof (cases "n div 2 = 0")
    case True
    with n show ?thesis by (simp add: bit_length_Suc bit_length_0)
  next
    case False
    with "1.IH" [OF n] have ih: "2 ^ (bit_length (n div 2) - 1) \<le> n div 2" by simp
    from False have "0 < bit_length (n div 2)" by (simp add: bit_length_pos)
    then obtain r where r: "bit_length (n div 2) = Suc r" by (cases "bit_length (n div 2)") auto
    with ih have "2 ^ r \<le> n div 2" by simp
    then have "2 * 2 ^ r \<le> n" by linarith
    with n r show ?thesis by (simp add: bit_length_Suc)
  qed
qed

lemma round_half_even_ge: "x div y \<le> round_half_even x y"
  by (simp add: round_half_even_def Let_def)

lemma round_half_even_le: "round_half_even x y \<le> x div y + 1"
  by (simp add: round_half_even_def Let_def)

lemma round_half_even_down: "2 * (x mod y) < y \<Longrightarrow> round_half_even x y = x div y"
  by (simp add: round_half_even_def Let_def)

lemma quotient_exponent_le: "quotient_exponent a b \<le> int (bit_length a) - int (bit_length b)"
  by (simp add: quotient_exponent_def Let_def)

lemma quotient_exponent_lower:
  assumes "0 < a" "0 < b"
  shows "b * 2 ^ nat (quotient_exponent a b) \<le> a * 2 ^ nat (- quotient_exponent a b)"
proof -
  define la where "la = bit_length a"
  define lb where "lb = bit_length b"
  have la: "0 < la" and lb: "0 < lb" using assms by (simp_all add: la_def lb_def bit_length_pos)
  have b: "b < 2 ^ lb" unfolding lb_def by (rule bit_length_upper)
  have a: "2 ^ (la - 1) \<le> a" unfolding la_def using assms(1) by (rule bit_length_lower)
  show ?thesis
  proof (cases "b * 2 ^ nat (int la - int lb) \<le> a * 2 ^ nat (- (int la - int lb))")
    case True
    then show ?thesis by (simp add: quotient_exponent_def Let_def la_def lb_def)
  next
    case False
    then have k: "quotient_exponent a b = int la - int lb - 1"
      by (simp add: quotient_exponent_def Let_def la_def lb_def)
    show ?thesis
    proof (cases "lb < la")
      case True
      with k have e1: "nat (quotient_exponent a b) = la - lb - 1"
        and e2: "nat (- quotient_exponent a b) = 0" by auto
      have "b * 2 ^ (la - lb - 1) \<le> 2 ^ lb * 2 ^ (la - lb - 1)"
        using b by simp
      also have "\<dots> = 2 ^ (la - 1)"
        using True lb by (simp add: power_add [symmetric])
      also have "\<dots> \<le> a" by (rule a)
      finally show ?thesis unfolding e1 e2 by simp
    next
      case False
      with k have e1: "nat (quotient_exponent a b) = 0"
        and e2: "nat (- quotient_exponent a b) = lb - la + 1" by auto
      have split: "lb = (la - 1) + (lb - la + 1)" using False la by arith
      have "b \<le> 2 ^ lb" using b by simp
      also have "\<dots> = 2 ^ (la - 1) * 2 ^ (lb - la + 1)"
        by (subst split) (rule power_add)
      also have "\<dots> \<le> a * 2 ^ (lb - la + 1)"
        using a by simp
      finally show ?thesis unfolding e1 e2 by simp
    qed
  qed
qed

text \<open>
  Below \<open>2 ^ 53\<close> the rounding of the quotient never reaches the next integer:
  truncating the rounded quotient gives the integer quotient.
\<close>

lemma float_quotient_trunc:
  assumes a: "0 < a" "a < 2 ^ 53" and b: "0 < b"
  shows "\<exists>m E. float_quotient a b = (m, - int E) \<and> m div 2 ^ E = a div b \<and> m < 2 ^ 53 * 2 ^ E"
proof -
  define k where "k = quotient_exponent a b"
  define e where "e = max (k - 52) (- 1074)"
  define E where "E = nat (- e)"
  define m where "m = round_half_even (a * 2 ^ E) b"
  define f where "f = a div b"
  define x where "x = a * 2 ^ E"
  define d where "d = x div b"
  define N where "N = (f + 1) * 2 ^ E"
  have "bit_length a \<le> 53" using a(2) by (rule bit_length_le)
  moreover have "0 < bit_length b" using b by (rule bit_length_pos)
  moreover have "k \<le> int (bit_length a) - int (bit_length b)"
    unfolding k_def by (rule quotient_exponent_le)
  ultimately have k52: "k \<le> 52" by linarith
  then have e0: "e \<le> 0" by (simp add: e_def)
  then have eE: "e = - int E" and ne: "nat e = 0" by (simp_all add: E_def)
  have "float_quotient a b = (round_half_even (a * 2 ^ nat (- e)) (b * 2 ^ nat e), e)"
    by (simp add: float_quotient_def Let_def k_def e_def)
  also have "round_half_even (a * 2 ^ nat (- e)) (b * 2 ^ nat e) = m"
    by (simp add: m_def E_def ne)
  finally have fq: "float_quotient a b = (m, - int E)"
    by (simp only: eE)
  have md: "d \<le> m" unfolding m_def d_def x_def by (rule round_half_even_ge)
  have md1: "m \<le> d + 1" unfolding m_def d_def x_def by (rule round_half_even_le)
  have "f * b \<le> a" unfolding f_def by simp
  then have "f * 2 ^ E * b \<le> x" unfolding x_def
    by (metis mult.assoc mult.commute mult_le_mono1)
  then have lower: "f * 2 ^ E \<le> d" unfolding d_def
    using b by (simp add: less_eq_div_iff_mult_less_eq)
  have "a < (f + 1) * b" unfolding f_def using b
    by (metis Suc_eq_plus1 dividend_less_div_times mult.commute add.commute mult_Suc_right)
  then have "a + 1 \<le> (f + 1) * b" by simp
  then have "(a + 1) * 2 ^ E \<le> (f + 1) * b * 2 ^ E" by (rule mult_le_mono1)
  then have gap: "x + 2 ^ E \<le> N * b"
    unfolding x_def N_def by (simp add: algebra_simps)
  have "0 < (2::nat) ^ E" by simp
  with gap have "x < N * b" by linarith
  then have dN: "d < N" unfolding d_def using b by (simp add: div_less_iff_less_mult)
  have upper: "m < N"
  proof (cases "b < 2 * 2 ^ E")
    case True
    show ?thesis
    proof (cases "d + 1 < N")
      case True
      with md1 show ?thesis by linarith
    next
      case False
      with dN have N: "N = d + 1" by linarith
      have "x = d * b + x mod b" unfolding d_def by simp
      with gap N have "x mod b + 2 ^ E \<le> b" by (simp add: algebra_simps)
      with True have "2 * (x mod b) < b" by linarith
      then have "m = d" unfolding m_def d_def x_def by (rule round_half_even_down)
      with dN show ?thesis by simp
    qed
  next
    case False
    then have bE: "2 * 2 ^ E \<le> b" by simp
    have E: "E = 1074"
    proof (rule ccontr)
      assume "E \<noteq> 1074"
      then have ek: "e = k - 52" unfolding E_def e_def by (auto simp: max_def split: if_splits)
      have low: "b * 2 ^ nat k \<le> a * 2 ^ nat (- k)"
        unfolding k_def using a(1) b by (rule quotient_exponent_lower)
      have "b < 2 * 2 ^ E"
      proof (cases "0 \<le> k")
        case True
        then have nk: "nat (- k) = 0" by simp
        from True k52 ek have EE: "53 = nat k + (E + 1)" unfolding E_def by linarith
        from low nk a(2) have "b * 2 ^ nat k < 2 ^ 53" by simp
        also have "(2::nat) ^ 53 = 2 ^ nat k * 2 ^ (E + 1)"
          by (subst EE) (rule power_add)
        finally have "b * 2 ^ nat k < 2 ^ (E + 1) * 2 ^ nat k" by (simp add: mult.commute)
        then show ?thesis by simp
      next
        case False
        then have nk: "nat k = 0" by simp
        from False ek have EE: "E + 1 = 53 + nat (- k)" unfolding E_def by linarith
        from low nk have "b \<le> a * 2 ^ nat (- k)" by simp
        also have "\<dots> < 2 ^ 53 * 2 ^ nat (- k)" using a(2) by simp
        also have "\<dots> = 2 ^ (E + 1)" by (subst EE) (rule power_add [symmetric])
        finally show ?thesis by simp
      qed
      with bE show False by simp
    qed
    have "x < 2 ^ 53 * 2 ^ E" unfolding x_def using a(2) by simp
    also have "\<dots> = 2 ^ 52 * (2 * 2 ^ E)" by simp
    also have "\<dots> \<le> 2 ^ 52 * b" using bE by (rule mult_le_mono2)
    finally have "d < 2 ^ 52" unfolding d_def using b by (simp add: div_less_iff_less_mult)
    with md1 have "m \<le> 2 ^ 52" by linarith
    also have "(2::nat) ^ 52 < 2 ^ E" unfolding E by (rule power_strict_increasing) simp_all
    also have "\<dots> \<le> N" unfolding N_def by simp
    finally show ?thesis .
  qed
  from lower md have "2 ^ E * f \<le> m" by (simp add: mult.commute)
  moreover from upper have "m < 2 ^ E * Suc f" by (simp add: N_def mult.commute)
  ultimately have "m div 2 ^ E = f" by (rule div_nat_eqI)
  moreover have "m < 2 ^ 53 * 2 ^ E"
  proof -
    have "f \<le> a" unfolding f_def by simp
    with a(2) have "f + 1 \<le> 2 ^ 53" by linarith
    then have "N \<le> 2 ^ 53 * 2 ^ E" unfolding N_def by (rule mult_le_mono1)
    with upper show ?thesis by linarith
  qed
  ultimately show ?thesis using fq unfolding f_def by blast
qed

text \<open>
  C3, as amended. For \<open>1 \<le> num_tasks < 2 ^ 53\<close> and at least one node,
  \<open>tasks_per_node\<close> is \<open>max (floor (num_tasks / total_nodes)) 1\<close>, and no
  exception is raised.
\<close>

theorem tasks_per_node_floor:
  assumes "1 \<le> num_tasks" "num_tasks < 2 ^ 53" "1 \<le> low_pri_nodes + dedicated_nodes"
  shows "tasks_per_node num_tasks low_pri_nodes dedicated_nodes =
     Inr (max (num_tasks div (low_pri_nodes + dedicated_nodes)) 1)"
proof -
  define t where "t = low_pri_nodes + dedicated_nodes"
  have a: "0 < nat \<bar>num_tasks\<bar>" "nat \<bar>num_tasks\<bar> < 2 ^ 53" using assms(1,2) by simp_all
  have b: "0 < nat \<bar>t\<bar>" using assms(3) by (simp add: t_def)
  from float_quotient_trunc [OF a b] obtain m E where
    fq: "float_quotient (nat \<bar>num_tasks\<bar>) (nat \<bar>t\<bar>) = (m, - int E)"
    and dv: "m div 2 ^ E = nat \<bar>num_tasks\<bar> div nat \<bar>t\<bar>"
    and bound: "m < 2 ^ 53 * 2 ^ E" by blast
  have "(2::nat) ^ 53 \<le> 2 ^ 1024" by (rule power_increasing) simp_all
  then have "2 ^ 53 * 2 ^ E \<le> (2::nat) ^ 1024 * 2 ^ E" by (rule mult_le_mono1)
  with bound have no_overflow: "\<not> 2 ^ 1024 * 2 ^ E \<le> m" by linarith
  have "int (nat \<bar>num_tasks\<bar> div nat \<bar>t\<bar>) = num_tasks div t"
    using assms by (simp add: zdiv_int t_def)
  with dv have q: "int (m div 2 ^ E) = num_tasks div t" by simp
  have nz: "num_tasks \<noteq> 0" "t \<noteq> 0" "\<not> num_tasks < 0" "\<not> t < 0"
    using assms by (simp_all add: t_def)
  have td: "true_div num_tasks t = Inr \<lparr>negative = False, mantissa = m, exponent = - int E\<rparr>"
    using nz fq no_overflow by (simp add: true_div_def)
  show ?thesis
    unfolding tasks_per_node_def Let_def t_def [symmetric] td
    using q by (simp add: int_of_float_def)
qed

theorem tasks_per_node_floor_witness:
  "(1::int) \<le> 100 \<and> (100::int) < 2 ^ 53 \<and> (1::int) \<le> 9 + 1
   \<and> tasks_per_node 100 9 1 = Inr (max (100 div (9 + 1)) 1)"
  using tasks_per_node_floor [of 100 9 1] by simp

text \<open>
  C3, as stated, fails where the quotient is rounded up to an integer: with
  \<open>2 ^ 54 - 1\<close> tasks on \<open>2 ^ 53\<close> nodes the exact quotient \<open>2 - 2 ^ - 53\<close> lies
  half-way between two floats and is rounded to \<open>2.0\<close>, so \<open>tasks_per_node\<close> is 2
  where the floor of the quotient is 1.
\<close>

lemmas sizing_defs = tasks_per_node_def true_div_def float_quotient_def
  quotient_exponent_def round_half_even_def int_of_float_def bit_length.simps Let_def

theorem tasks_per_node_floor_counterexample:
  "(1::int) \<le> 18014398509481983 \<and> (1::int) \<le> 9007199254740991 + 1
   \<and> tasks_per_node 18014398509481983 9007199254740991 1 = Inr 2
   \<and> max (18014398509481983 div (9007199254740991 + 1)) 1 = (1::int)"
  by (simp add: sizing_defs)

lemma logger_info_plain: "logger_info msg [] = Inr [(INFO, msg)]"
  by (simp add: logger_info_def logger_log_def isEnabledFor_def getEffectiveLevel_def
      module_logging_def NOTSET_def INFO_def)

lemma select_vm_sku_default:
  assumes "vm_sku = None \<or> vm_sku = Some []"
    and "lower answer = ''none'' \<or> lower answer = []"
  shows "select_vm_sku vm_sku answer t = default_vm_sku answer t"
  using assms by (auto simp: select_vm_sku_def)

lemma tasks_per_node_100: "tasks_per_node 100 9 1 = Inr 10"
  by (simp add: sizing_defs)

lemma tasks_per_node_1000: "tasks_per_node 1000 9 1 = Inr 100"
  by (simp add: sizing_defs)

lemma str_int_100: "str_int 100 = ''100''"
  by (simp add: str_int_def str_nat.simps digit_char_def)

text \<open>
  C4. With no size given, neither as the argument of \<open>run_tasks\<close> nor as the answer
  to its question (the answer is \<open>none\<close> in any case of letters, or empty), the
  size is a step function of \<open>tasks_per_node\<close> with steps at 8, 16, 32 and 75;
  above 75 it is the largest size, one record is logged and nothing is raised.
  100 tasks on 1 dedicated and 9 low-priority nodes give a density of 10 and the
  size for at most 16; 1000 tasks give 100 and the largest size with the record.
\<close>

theorem select_vm_sku_step:
  assumes "vm_sku = None \<or> vm_sku = Some []"
    and "lower answer = ''none'' \<or> lower answer = []"
  shows "(t \<le> 8 \<longrightarrow> select_vm_sku vm_sku answer t = Inr (''Standard_E2s_v3'', []))
    \<and> (8 < t \<and> t \<le> 16 \<longrightarrow> select_vm_sku vm_sku answer t = Inr (''Standard_E8s_v3'', []))
    \<and> (16 < t \<and> t \<le> 32 \<longrightarrow> select_vm_sku vm_sku answer t = Inr (''Standard_E16s_v3'', []))
    \<and> (32 < t \<and> t \<le> 75 \<longrightarrow> select_vm_sku vm_sku answer t = Inr (''Standard_E32s_v3'', []))
    \<and> (75 < t \<longrightarrow> select_vm_sku vm_sku answer t =
          Inr (''Standard_E64s_v3'',
            [(INFO, ''Running '' @ str_int t @
                '' tasks per node, please check if VM Size is compatible'')]))
    \<and> recommend 100 1 9 vm_sku answer = Inr (10, ''Standard_E8s_v3'', [])
    \<and> recommend 1000 1 9 vm_sku answer =
          Inr (100, ''Standard_E64s_v3'',
            [(INFO, ''Running 100 tasks per node, please check if VM Size is compatible'')])"
  unfolding recommend_def tasks_per_node_100 tasks_per_node_1000
    select_vm_sku_default [OF assms]
  by (simp add: default_vm_sku_def logger_info_plain str_int_100)

theorem select_vm_sku_step_witness:
  "select_vm_sku None ''None'' 5 = Inr (''Standard_E2s_v3'', [])
   \<and> select_vm_sku None ''None'' 10 = Inr (''Standard_E8s_v3'', [])
   \<and> select_vm_sku None ''None'' 20 = Inr (''Standard_E16s_v3'', [])
   \<and> select_vm_sku None ''None'' 50 = Inr (''Standard_E32s_v3'', [])
   \<and> select_vm_sku None ''None'' 100 =
      Inr (''Standard_E64s_v3'',
        [(INFO, ''Running 100 tasks per node, please check if VM Size is compatible'')])
   \<and> recommend 100 1 9 None ''None'' = Inr (10, ''Standard_E8s_v3'', [])
   \<and> recommend 1000 1 9 None ''None'' =
      Inr (100, ''Standard_E64s_v3'',
        [(INFO, ''Running 100 tasks per node, please check if VM Size is compatible'')])"
  using select_vm_sku_step [of None "''None''" 5] select_vm_sku_step [of None "''None''" 10]
    select_vm_sku_step [of None "''None''" 20] select_vm_sku_step [of None "''None''" 50]
    select_vm_sku_step [of None "''None''" 100]
  by (simp add: lower_def lower_char_def str_int_100)

text \<open>
  C5. The size chosen by the chain never shrinks when \<open>tasks_per_node\<close> grows, in the
  order \<open>Standard_E2s_v3 < Standard_E8s_v3 < Standard_E16s_v3 < Standard_E32s_v3 <
  Standard_E64s_v3\<close>.
\<close>

theorem default_vm_sku_mono:
  assumes "t1 \<le> t2"
  shows "\<exists>s1 l1 s2 l2 r1 r2.
      default_vm_sku v t1 = Inr (s1, l1) \<and> default_vm_sku v t2 = Inr (s2, l2)
      \<and> vm_size_rank s1 = Some r1 \<and> vm_size_rank s2 = Some r2 \<and> r1 \<le> r2"
  using assms by (simp add: default_vm_sku_def logger_info_plain vm_size_rank_def)

theorem default_vm_sku_mono_witness:
  "(10::int) \<le> 100
   \<and> (\<exists>s1 l1 s2 l2 r1 r2.
      default_vm_sku [] 10 = Inr (s1, l1) \<and> default_vm_sku [] 100 = Inr (s2, l2)
      \<and> vm_size_rank s1 = Some r1 \<and> vm_size_rank s2 = Some r2 \<and> r1 \<le> r2)"
  using default_vm_sku_mono [of 10 100 "[]"] by simp

subsection \<open>Deleting pools and jobs\<close>

lemma class_dict_delete_pool: "class_dict ''delete_pool'' = Some 291"
  by (simp add: class_dict_def class_body_def)

text \<open>
  C10. The class holds the definition of line 291 under the name \<open>delete_pool\<close>. A
  call without arguments asks the service to delete the pool named by
  \<open>config["POOL"]["POOL_ID"]\<close>, as the configuration holds it, and returns what the
  service answers, an error included; a call with a positional or a keyword argument
  is a \<open>TypeError\<close> and reaches no pool.
\<close>

theorem delete_pool_config_only:
  "call_delete_pool [] [] s =
     (fst (pool_delete (batch_client s) (POOL_POOL_ID (config s))),
      s\<lparr>batch_client := snd (pool_delete (batch_client s) (POOL_POOL_ID (config s)))\<rparr>)
   \<and> calls (batch_client (snd (call_delete_pool [] [] s))) =
       calls (batch_client s) @ [PoolDelete (POOL_POOL_ID (config s))]
   \<and> call_delete_pool (a # args) kwargs s = (Inl (TypeError a), s)
   \<and> call_delete_pool [] ((k, v) # kwargs) s = (Inl (TypeError k), s)"
  by (simp add: call_delete_pool_def class_dict_delete_pool delete_pool_291_def
      pool_delete_def Let_def split: prod.splits)

lemma try_delete_result: "fst (try_delete jid st) = PyNone"
  by (simp add: try_delete_def split: prod.splits sum.splits)

lemma try_delete_calls:
  "calls (batch_client (fst (snd (try_delete jid (s, out))))) =
     calls (batch_client s) @ [JobDelete jid]"
  by (simp add: try_delete_def job_delete_def Let_def split: prod.splits sum.splits list.splits)

lemma try_delete_all_result: "fst (try_delete_all jid_list st) = replicate (length jid_list) PyNone"
proof (induction jid_list arbitrary: st)
  case Nil
  show ?case by simp
next
  case (Cons jid jid_list)
  obtain r st' where a: "try_delete jid st = (r, st')" by (cases "try_delete jid st")
  then have r: "r = PyNone" using try_delete_result [of jid st] by simp
  obtain rs st'' where b: "try_delete_all jid_list st' = (rs, st'')"
    by (cases "try_delete_all jid_list st'")
  with Cons.IH [of st'] have "rs = replicate (length jid_list) PyNone" by simp
  with a b r show ?case by simp
qed

lemma try_delete_all_calls:
  "calls (batch_client (fst (snd (try_delete_all jid_list (s, out))))) =
     calls (batch_client s) @ map JobDelete jid_list"
proof (induction jid_list arbitrary: s out)
  case Nil
  show ?case by simp
next
  case (Cons jid jid_list)
  obtain r s' out' where a: "try_delete jid (s, out) = (r, s', out')"
    by (cases "try_delete jid (s, out)") auto
  then have c: "calls (batch_client s') = calls (batch_client s) @ [JobDelete jid]"
    using try_delete_calls [of jid s out] by simp
  obtain rs st'' where b: "try_delete_all jid_list (s', out') = (rs, st'')"
    by (cases "try_delete_all jid_list (s', out')")
  with Cons.IH [of s' out'] c
  have "calls (batch_client (fst st'')) = calls (batch_client s) @ JobDelete jid # map JobDelete jid_list"
    by simp
  with a b show ?case by simp
qed

text \<open>
  C8, as amended. \<open>delete_all_tasks\<close> asks for the deletion of every job the service
  lists, in the order of the listing and whatever the earlier deletions answered; it
  returns one \<open>None\<close> for each job.
\<close>

theorem delete_all_tasks_attempts_all:
  "fst (delete_all_tasks s) = replicate (length (jobs (batch_client s))) PyNone
   \<and> calls (batch_client (fst (snd (delete_all_tasks s)))) =
       calls (batch_client s) @ JobList # map JobDelete (job_ids (batch_client s))"
  by (simp add: delete_all_tasks_def job_list_def try_delete_all_result try_delete_all_calls
      job_ids_def)

text \<open>
  C8, as stated, asks for an outcome list that marks the failed deletion. With three
  jobs of which the second cannot be deleted, the three outcomes are \<open>None\<close>, the
  second like the first; the failure shows only in the line printed. The first and
  the third job are being deleted afterwards.
\<close>

theorem delete_all_tasks_outcomes_counterexample:
  "fst (job_delete three_jobs ''b'') = Inl (BatchErrorException ''JobBeingDeleted'')
   \<and> fst (delete_all_tasks (demo_containers demo_config three_jobs)) = [PyNone, PyNone, PyNone]
   \<and> fst (delete_all_tasks (demo_containers demo_config three_jobs)) ! 1 =
       fst (delete_all_tasks (demo_containers demo_config three_jobs)) ! 0
   \<and> snd (snd (delete_all_tasks (demo_containers demo_config three_jobs))) = [''already gone'']
   \<and> map state_of_job
         (jobs (batch_client (fst (snd (delete_all_tasks (demo_containers demo_config three_jobs))))))
       = [JobDeleting, JobDeleting, JobDeleting]"
  by (simp add: delete_all_tasks_def job_list_def try_delete_def job_delete_def
      demo_containers_def three_jobs_def Let_def)

subsection \<open>Creating the pool\<close>

text \<open>
  With \<open>skip_if_exists\<close> set, \<open>create_pool\<close> returns normally whatever the account
  holds, and asks for the pool to be created only when \<open>pool.exists\<close> denies it.
\<close>

lemma pool_parameter_id: "pool_param_id (pool_parameter uf s) = strip_quote (POOL_POOL_ID (config s))"
  by (simp add: pool_parameter_def Let_def)

lemma create_pool_skip:
  "create_pool True uf s =
     (Inr (),
      s\<lparr>use_fileshare := uf,
        mount_path := Some (platform_mount_path (config s)),
        new_pool := Some (pool_parameter uf s),
        batch_client :=
          (if strip_quote (POOL_POOL_ID (config s)) \<in> set (pool_ids (batch_client s))
           then (batch_client s)\<lparr>calls := calls (batch_client s) @
                   [PoolExists (strip_quote (POOL_POOL_ID (config s)))]\<rparr>
           else (batch_client s)\<lparr>calls := calls (batch_client s) @
                   [PoolExists (strip_quote (POOL_POOL_ID (config s))),
                    PoolAdd (strip_quote (POOL_POOL_ID (config s)))],
                  pools := pools (batch_client s) @ [pool_parameter uf s]\<rparr>),
        pool_id := Some (strip_quote (POOL_POOL_ID (config s)))\<rparr>)"
  by (simp add: create_pool_def add_new_pool_def pool_exists_def pool_add_def pool_ids_def
      pool_parameter_id Let_def)

lemma pool_add_calls_append:
  "pool_add_calls (cs @ ds) = pool_add_calls cs @ pool_add_calls ds"
  by (induction cs rule: pool_add_calls.induct) simp_all


text \<open>On an account that holds the pool already, no call of \<open>pool.add\<close> is made at all.\<close>

lemma create_pool_existing:
  assumes "strip_quote (POOL_POOL_ID (config s)) \<in> set (pool_ids (batch_client s))"
  shows "pool_add_calls (calls (batch_client (snd (create_pool True uf s)))) =
     pool_add_calls (calls (batch_client s))
   \<and> pools (batch_client (snd (create_pool True uf s))) = pools (batch_client s)"
  using assms by (simp add: create_pool_skip pool_add_calls_append)


subsection \<open>Submitting the replicas\<close>








text \<open>
  \<open>add_job\<close> under a job id that the account does not hold, on the pool of the
  instance, and \<open>add_task\<close> under a task id that the job does not hold.
\<close>

lemma add_job_fresh:
  assumes "pool_id s = Some p" "p \<in> set (pool_ids (batch_client s))"
    and "''Job-'' @ strip_quote (POOL_JOB_NAME (config s)) @ ''-'' @ stamp
           \<notin> set (job_ids (batch_client s))"
  shows "add_job None stamp s =
     (Inr (),
      s\<lparr>job_id := Some (''Job-'' @ strip_quote (POOL_JOB_NAME (config s)) @ ''-'' @ stamp),
        batch_client := (batch_client s)
          \<lparr>calls := calls (batch_client s) @
              [JobAdd (''Job-'' @ strip_quote (POOL_JOB_NAME (config s)) @ ''-'' @ stamp)],
           jobs := jobs (batch_client s) @
              [\<lparr>job_ident = ''Job-'' @ strip_quote (POOL_JOB_NAME (config s)) @ ''-'' @ stamp,
                job_pool_id = p, state_of_job = JobActive, job_tasks = []\<rparr>]\<rparr>\<rparr>)"
  using assms by (simp add: add_job_def job_add_def Let_def)

lemma task_parameter_id: "task_param_id (task_parameter c n wd s) = n"
  by (simp add: task_parameter_def)

lemma task_parameter_task_id:
  "task_parameter c n wd (s\<lparr>task_id := x\<rparr>) = task_parameter c n wd s"
  by (simp add: task_parameter_def run_options_def)

lemma add_task_new:
  assumes "pool_id s = Some p" "job_id s = Some jid"
    and "filter (\<lambda>j. job_ident j = jid) (jobs (batch_client s)) = j # js"
    and "n \<notin> set (map task_param_id (job_tasks j))"
  shows "add_task c n wd s =
     (Inr (),
      s\<lparr>task_id := Some n,
        batch_client := (batch_client s)
          \<lparr>calls := calls (batch_client s) @ [TaskAdd jid n],
           jobs := map (\<lambda>j. if job_ident j = jid
                             then j\<lparr>job_tasks := job_tasks j @ [task_parameter c n wd s]\<rparr>
                             else j) (jobs (batch_client s))\<rparr>\<rparr>)"
  using assms
  by (simp add: add_task_def task_add_def task_parameter_id task_parameter_task_id Let_def)






subsection \<open>The mount path of the file share\<close>

text \<open>
  The two decisions on the family of the operating system: \<open>create_pool\<close> reads the
  entry \<open>PLATFORM\<close> and compares it with \<open>windows\<close> as it is written, \<open>add_task\<close>
  reads the entry \<open>PUBLISHER\<close>, which \<open>run_tasks\<close> sets from the platform in lower
  case.
\<close>

lemma run_options_fileshare:
  assumes "use_fileshare s"
  shows "run_options None s =
     (if POOL_PUBLISHER (config s) = ''MicrosoftWindowsServer''
      then ''-w C:'' @ [backslash] @ ''src'' @ [backslash] @ '' --volume '' @ task_mount True ''src''
      else ''--workdir /src/ --volume '' @ task_mount False ''src'')"
  using assms by (simp add: run_options_def Let_def)

lemma pool_parameter_mount:
  "map_option (map relative_mount_path) (mount_configuration (pool_parameter True s)) =
     Some [platform_mount_path (config s)]"
  by (simp add: pool_parameter_def Let_def)

text \<open>
  C9. With the file share requested, the pool and the tasks are to follow one
  convention for the mount path, chosen by the family of the operating system. On a
  configuration whose platform is written \<open>Windows\<close>, for which \<open>run_tasks\<close> takes
  the publisher \<open>MicrosoftWindowsServer\<close> from the Windows configuration, they do
  not: the pool is created with the relative mount path \<open>azfileshare\<close>, and the task
  submitted to its job binds the drive \<open>S:\<close> to the directory \<open>logs\<close> under
  \<open>src\<close> on the drive \<open>C:\<close>.
\<close>

theorem mount_paths_disagree:
  "ACR_PLATFORM demo_config = ''Windows''
   \<and> POOL_PUBLISHER (run_tasks_platform ''MicrosoftWindowsServer'' ''batch.node.windows amd64''
        demo_config) = ''MicrosoftWindowsServer''
   \<and> (\<exists>s1 s2 s3.
        create_pool True True
          (demo_containers
             (run_tasks_platform ''MicrosoftWindowsServer'' ''batch.node.windows amd64'' demo_config)
             empty_service) = (Inr (), s1)
      \<and> add_job None ''2020'' s1 = (Inr (), s2)
      \<and> add_task ''python main.py'' ''job_number0_sim'' None s2 = (Inr (), s3)
      \<and> mount_path s3 = Some ''azfileshare''
      \<and> map (\<lambda>p. map_option (map relative_mount_path) (mount_configuration p))
            (pools (batch_client s3)) = [Some [''azfileshare'']]
      \<and> map container_run_options (tasks_of (batch_client s3) ''Job-sim-2020'') =
          [''-w C:'' @ [backslash] @ ''src'' @ [backslash] @ '' --volume S:'' @ [backslash] @
           '':C:'' @ [backslash] @ ''src'' @ [backslash] @ ''logs''])"
proof -
  define cfg where
    "cfg = run_tasks_platform ''MicrosoftWindowsServer'' ''batch.node.windows amd64'' demo_config"
  define s0 where "s0 = demo_containers cfg empty_service"
  have low: "lower ''Windows'' = ''windows''"
    by (simp add: lower_def lower_char_def)
  have cfg_eq: "cfg = demo_config\<lparr>POOL_PUBLISHER := ''MicrosoftWindowsServer'',
      POOL_AGENT_SKU := ''batch.node.windows amd64''\<rparr>"
    unfolding cfg_def run_tasks_platform_def using low by (simp add: demo_config_def)
  have plat: "ACR_PLATFORM demo_config = ''Windows''" by (simp add: demo_config_def)
  have pub: "POOL_PUBLISHER cfg = ''MicrosoftWindowsServer''" by (simp add: cfg_eq)
  have mp: "platform_mount_path cfg = ''azfileshare''"
    by (simp add: platform_mount_path_def cfg_eq demo_config_def)
  have pid: "strip_quote (POOL_POOL_ID cfg) = ''simpool10''"
    by (simp add: cfg_eq demo_config_def strip_quote_def)
  have jn: "strip_quote (POOL_JOB_NAME cfg) = ''sim''"
    by (simp add: cfg_eq demo_config_def strip_quote_def)
  have c0: "config s0 = cfg" and b0: "batch_client s0 = empty_service"
    by (simp_all add: s0_def demo_containers_def)
  define s1 where "s1 = snd (create_pool True True s0)"
  have c1: "create_pool True True s0 = (Inr (), s1)"
    unfolding s1_def by (simp add: create_pool_skip)
  have cfg1: "config s1 = cfg" unfolding s1_def by (simp add: create_pool_skip c0)
  have p1: "pool_id s1 = Some ''simpool10''"
    unfolding s1_def by (simp add: create_pool_skip c0 pid)
  have u1: "use_fileshare s1" unfolding s1_def by (simp add: create_pool_skip)
  have m1: "mount_path s1 = Some ''azfileshare''"
    unfolding s1_def by (simp add: create_pool_skip c0 mp)
  have pools1: "pools (batch_client s1) = [pool_parameter True s0]"
    unfolding s1_def by (simp add: create_pool_skip c0 b0 pid empty_service_def pool_ids_def)
  have jobs1: "jobs (batch_client s1) = []"
    unfolding s1_def by (simp add: create_pool_skip c0 b0 pid empty_service_def pool_ids_def)
  have ex1: "''simpool10'' \<in> set (pool_ids (batch_client s1))"
    by (simp add: pool_ids_def pools1 pool_parameter_id c0 pid)
  have jid: "''Job-'' @ strip_quote (POOL_JOB_NAME (config s1)) @ ''-'' @ ''2020'' = ''Job-sim-2020''"
    by (simp add: cfg1 jn)
  have fresh1: "''Job-'' @ strip_quote (POOL_JOB_NAME (config s1)) @ ''-'' @ ''2020''
      \<notin> set (job_ids (batch_client s1))"
    by (simp add: job_ids_def jobs1)
  define j where "j = \<lparr>job_ident = ''Job-sim-2020'', job_pool_id = ''simpool10'',
    state_of_job = JobActive, job_tasks = []\<rparr>"
  define s2 where "s2 = s1\<lparr>job_id := Some ''Job-sim-2020'',
      batch_client := (batch_client s1)
        \<lparr>calls := calls (batch_client s1) @ [JobAdd ''Job-sim-2020''],
         jobs := jobs (batch_client s1) @ [j]\<rparr>\<rparr>"
  have c2: "add_job None ''2020'' s1 = (Inr (), s2)"
    using add_job_fresh [OF p1 ex1 fresh1] unfolding jid s2_def j_def .
  have p2: "pool_id s2 = Some ''simpool10''" by (simp add: s2_def p1)
  have j2: "job_id s2 = Some ''Job-sim-2020''" by (simp add: s2_def)
  have f2: "filter (\<lambda>j. job_ident j = ''Job-sim-2020'') (jobs (batch_client s2)) = j # []"
    by (simp add: s2_def jobs1 j_def)
  have n2: "''job_number0_sim'' \<notin> set (map task_param_id (job_tasks j))"
    by (simp add: j_def)
  define t where "t = task_parameter ''python main.py'' ''job_number0_sim'' None s2"
  define s3 where "s3 = s2\<lparr>task_id := Some ''job_number0_sim'',
        batch_client := (batch_client s2)
          \<lparr>calls := calls (batch_client s2) @ [TaskAdd ''Job-sim-2020'' ''job_number0_sim''],
           jobs := map (\<lambda>j. if job_ident j = ''Job-sim-2020''
                             then j\<lparr>job_tasks := job_tasks j @ [t]\<rparr> else j)
                     (jobs (batch_client s2))\<rparr>\<rparr>"
  have c3: "add_task ''python main.py'' ''job_number0_sim'' None s2 = (Inr (), s3)"
    unfolding s3_def t_def by (rule add_task_new [OF p2 j2 f2 n2])
  have m3: "mount_path s3 = Some ''azfileshare''" by (simp add: s3_def s2_def m1)
  have pools3: "pools (batch_client s3) = [pool_parameter True s0]"
    by (simp add: s3_def s2_def pools1)
  have pm: "map (\<lambda>p. map_option (map relative_mount_path) (mount_configuration p))
      (pools (batch_client s3)) = [Some [''azfileshare'']]"
    unfolding pools3 using pool_parameter_mount [of s0] by (simp add: c0 mp)
  have u2: "use_fileshare s2" by (simp add: s2_def u1)
  have cfg2: "config s2 = cfg" by (simp add: s2_def cfg1)
  have ro: "container_run_options t =
      ''-w C:'' @ [backslash] @ ''src'' @ [backslash] @ '' --volume S:'' @ [backslash] @
      '':C:'' @ [backslash] @ ''src'' @ [backslash] @ ''logs''"
    unfolding t_def by (simp add: task_parameter_def run_options_fileshare [OF u2] cfg2 pub task_mount_def)
  have jobs3: "jobs (batch_client s3) = [j\<lparr>job_tasks := [t]\<rparr>]"
    by (simp add: s3_def s2_def jobs1 j_def)
  have tk: "map container_run_options (tasks_of (batch_client s3) ''Job-sim-2020'') =
      [''-w C:'' @ [backslash] @ ''src'' @ [backslash] @ '' --volume S:'' @ [backslash] @
       '':C:'' @ [backslash] @ ''src'' @ [backslash] @ ''logs'']"
    unfolding tasks_of_def jobs3 using ro by (simp add: j_def)
  have "\<exists>s1 s2 s3.
        create_pool True True s0 = (Inr (), s1)
      \<and> add_job None ''2020'' s1 = (Inr (), s2)
      \<and> add_task ''python main.py'' ''job_number0_sim'' None s2 = (Inr (), s3)
      \<and> mount_path s3 = Some ''azfileshare''
      \<and> map (\<lambda>p. map_option (map relative_mount_path) (mount_configuration p))
            (pools (batch_client s3)) = [Some [''azfileshare'']]
      \<and> map container_run_options (tasks_of (batch_client s3) ''Job-sim-2020'') =
          [''-w C:'' @ [backslash] @ ''src'' @ [backslash] @ '' --volume S:'' @ [backslash] @
           '':C:'' @ [backslash] @ ''src'' @ [backslash] @ ''logs'']"
    using c1 c2 c3 m3 pm tk
    by - (rule exI [of _ s1], rule exI [of _ s2], rule exI [of _ s3], intro conjI, assumption+)
  then show ?thesis
    unfolding s0_def cfg_def using plat pub [unfolded cfg_def] by (intro conjI)
qed

end
